theory Spec2Isabelle
  imports Complex_Main
begin

section \<open>JavaScript values used by the application\<close>

text \<open>
  Strings are character lists. The built-in string operations the application calls
  (\<open>trim\<close>, \<open>includes_str\<close>, \<open>split\<close>, \<open>toLowerCase\<close>, \<open>parseFloat\<close>, comparison in
  \<open>Array.prototype.sort\<close>) are written out here for strings of code units below
  256 (Latin-1). Numbers are reals with a separate \<open>NaN\<close> and the two infinities. A
  decimal literal beyond the range of a double reads as an infinity and one below half of
  the least positive double reads as zero, as in the language; the rounding of the values
  in between to the nearest double is not modelled.
\<close>

definition isWhiteSpace :: "char \<Rightarrow> bool" where
  "isWhiteSpace c = (c \<in> set [CHR 0x09, CHR 0x0A, CHR 0x0B, CHR 0x0C, CHR 0x0D, CHR 0x20, CHR 0xA0])"

definition trim :: "string \<Rightarrow> string" where
  "trim s = rev (dropWhile isWhiteSpace (rev (dropWhile isWhiteSpace s)))"

definition startsWith :: "string \<Rightarrow> string \<Rightarrow> bool" where
  "startsWith s p = (take (length p) s = p)"

fun includes_str :: "string \<Rightarrow> string \<Rightarrow> bool" where
  "includes_str [] p = (p = [])"
| "includes_str (c # s) p = (startsWith (c # s) p \<or> includes_str s p)"

text \<open>
  \<open>s.split(sep)\<close> for a non-empty separator: the pieces between the successive
  non-overlapping occurrences of \<open>sep\<close>, found from the left. \<open>cur\<close> is the piece
  being read.
\<close>

function split_from :: "string \<Rightarrow> string \<Rightarrow> string \<Rightarrow> string list" where
  "split_from sep cur [] = [cur]"
| "split_from sep cur (c # s) =
     (if sep \<noteq> [] \<and> startsWith (c # s) sep
      then cur # split_from sep [] (drop (length sep) (c # s))
      else split_from sep (cur @ [c]) s)"
  by pat_completeness auto
termination
  by (relation "measure (\<lambda>(sep, cur, s). length s)") auto

definition split :: "string \<Rightarrow> string \<Rightarrow> string list" where
  "split s sep = split_from sep [] s"

text \<open>
  \<open>toLowerCase\<close> on code units below 256: the letters A to Z, and the Latin-1 capitals
  U+00C0 to U+00DE without the multiplication sign U+00D7, each mapped to the code unit 32
  above it.
\<close>

definition upperCase :: string where
  "upperCase = ''ABCDEFGHIJKLMNOPQRSTUVWXYZ'' @
     [
        CHR 0xC0, CHR 0xC1, CHR 0xC2, CHR 0xC3, CHR 0xC4, CHR 0xC5, CHR 0xC6, CHR 0xC7,
        CHR 0xC8, CHR 0xC9, CHR 0xCA, CHR 0xCB, CHR 0xCC, CHR 0xCD, CHR 0xCE, CHR 0xCF,
        CHR 0xD0, CHR 0xD1, CHR 0xD2, CHR 0xD3, CHR 0xD4, CHR 0xD5, CHR 0xD6, CHR 0xD8,
        CHR 0xD9, CHR 0xDA, CHR 0xDB, CHR 0xDC, CHR 0xDD, CHR 0xDE]"

definition lowerCase :: string where
  "lowerCase = ''abcdefghijklmnopqrstuvwxyz'' @
     [
        CHR 0xE0, CHR 0xE1, CHR 0xE2, CHR 0xE3, CHR 0xE4, CHR 0xE5, CHR 0xE6, CHR 0xE7,
        CHR 0xE8, CHR 0xE9, CHR 0xEA, CHR 0xEB, CHR 0xEC, CHR 0xED, CHR 0xEE, CHR 0xEF,
        CHR 0xF0, CHR 0xF1, CHR 0xF2, CHR 0xF3, CHR 0xF4, CHR 0xF5, CHR 0xF6, CHR 0xF8,
        CHR 0xF9, CHR 0xFA, CHR 0xFB, CHR 0xFC, CHR 0xFD, CHR 0xFE]"

definition toLowerChar :: "char \<Rightarrow> char" where
  "toLowerChar c = (case map_of (zip upperCase lowerCase) c of Some d \<Rightarrow> d | None \<Rightarrow> c)"

definition toLowerCase :: "string \<Rightarrow> string" where
  "toLowerCase s = map toLowerChar s"

text \<open>The order \<open>sort\<close> uses without a comparator: code units, left to right.\<close>

fun str_less :: "string \<Rightarrow> string \<Rightarrow> bool" where
  "str_less [] [] = False"
| "str_less [] (y # ys) = True"
| "str_less (x # xs) [] = False"
| "str_less (x # xs) (y # ys) =
     (if (of_char x :: nat) < of_char y then True
      else if (of_char y :: nat) < of_char x then False
      else str_less xs ys)"

text \<open>\<open>[a, b].sort()\<close>: the sort is stable, so the pair is swapped only when \<open>b < a\<close>.\<close>

definition sort_pair :: "string \<Rightarrow> string \<Rightarrow> string list" where
  "sort_pair a b = (if str_less b a then [b, a] else [a, b])"

fun join :: "string list \<Rightarrow> string \<Rightarrow> string" where
  "join [] sep = []"
| "join [x] sep = x"
| "join (x # y # ys) sep = x @ sep @ join (y # ys) sep"

subsection \<open>Numbers and \<open>parseFloat\<close>\<close>

datatype number = NaN | Infinity bool | Num real

definition digits :: string where
  "digits = ''0123456789''"

definition isDigit :: "char \<Rightarrow> bool" where
  "isDigit c = (c \<in> set digits)"

definition digitValue :: "char \<Rightarrow> nat" where
  "digitValue c = (case map_of (zip digits [0 ..< 10]) c of Some d \<Rightarrow> d | None \<Rightarrow> 0)"

definition decimalValue :: "string \<Rightarrow> nat" where
  "decimalValue ds = foldl (\<lambda>v c. 10 * v + digitValue c) 0 ds"

text \<open>
  An exponent part is \<open>e\<close> or \<open>E\<close>, an optional sign and at least one digit; anything else
  after the mantissa is not part of the number.
\<close>

definition exponentPart :: "string \<Rightarrow> int" where
  "exponentPart r =
     (case r of
        [] \<Rightarrow> 0
      | c # t \<Rightarrow>
          if c = CHR ''e'' \<or> c = CHR ''E'' then
            (case t of
               [] \<Rightarrow> 0
             | d # u \<Rightarrow>
                 if d = CHR ''-'' then
                   (if takeWhile isDigit u = [] then 0 else - int (decimalValue (takeWhile isDigit u)))
                 else if d = CHR ''+'' then int (decimalValue (takeWhile isDigit u))
                 else int (decimalValue (takeWhile isDigit t)))
          else 0)"

definition pow10 :: "int \<Rightarrow> real" where
  "pow10 e = (if 0 \<le> e then 10 ^ nat e else 1 / 10 ^ nat (- e))"

text \<open>
  The double of a sign and a magnitude written in decimal. The greatest double is
  \<open>2^1024 - 2^971\<close>; a magnitude of at least \<open>2^1024 - 2^970\<close> rounds to infinity. The least
  positive double is \<open>2^-1074\<close>; a magnitude of at most \<open>2^-1075\<close> rounds to zero (negative
  zero is falsy like zero, and is not told apart from it).
\<close>

definition toDouble :: "bool \<Rightarrow> real \<Rightarrow> number" where
  "toDouble neg m =
     (if 2 ^ 1024 - 2 ^ 970 \<le> m then Infinity neg
      else if m \<le> 1 / 2 ^ 1075 then Num 0
      else Num ((if neg then - 1 else 1) * m))"

definition unsignedLiteral :: "bool \<Rightarrow> string \<Rightarrow> number" where
  "unsignedLiteral neg u =
     (if startsWith u ''Infinity'' then Infinity neg
      else
        let ip = takeWhile isDigit u;
            r1 = dropWhile isDigit u;
            fp = (case r1 of [] \<Rightarrow> [] | c # r \<Rightarrow> if c = CHR ''.'' then takeWhile isDigit r else []);
            r2 = (case r1 of [] \<Rightarrow> [] | c # r \<Rightarrow> if c = CHR ''.'' then dropWhile isDigit r else r1)
        in if ip = [] \<and> fp = [] then NaN
           else toDouble neg (real (decimalValue (ip @ fp))
                              * pow10 (exponentPart r2 - int (length fp))))"

definition parseFloat :: "string \<Rightarrow> number" where
  "parseFloat s =
     (case dropWhile isWhiteSpace s of
        [] \<Rightarrow> NaN
      | c # t \<Rightarrow>
          if c = CHR ''-'' then unsignedLiteral True t
          else if c = CHR ''+'' then unsignedLiteral False t
          else unsignedLiteral False (c # t))"

text \<open>\<open>ToString\<close> of a property that may be missing: \<open>undefined\<close> prints as its name.\<close>

definition ToString :: "string option \<Rightarrow> string" where
  "ToString v = (case v of None \<Rightarrow> ''undefined'' | Some s \<Rightarrow> s)"

text \<open>\<open>x || d\<close> on numbers: \<open>NaN\<close> and zero are falsy.\<close>

definition num_or :: "number \<Rightarrow> number \<Rightarrow> number" where
  "num_or x d = (if x = NaN \<or> x = Num 0 then d else x)"

text \<open>\<open>v || d\<close> on a string property: \<open>undefined\<close> and the empty string are falsy.\<close>

definition str_or :: "string option \<Rightarrow> string \<Rightarrow> string" where
  "str_or v d = (case v of None \<Rightarrow> d | Some s \<Rightarrow> if s = [] then d else s)"

subsection \<open>Sets in insertion order\<close>

text \<open>A \<open>Set\<close> of strings keeps its members in insertion order, each once.\<close>

type_synonym str_set = "string list"

definition has :: "str_set \<Rightarrow> string \<Rightarrow> bool" where
  "has S x = (x \<in> set S)"

definition add :: "str_set \<Rightarrow> string \<Rightarrow> str_set" where
  "add S x = (if has S x then S else S @ [x])"

definition delete :: "str_set \<Rightarrow> string \<Rightarrow> str_set" where
  "delete S x = filter (\<lambda>y. y \<noteq> x) S"

definition size_set :: "str_set \<Rightarrow> nat" where
  "size_set S = length S"

section \<open>Data model\<close>

text \<open>
  A row of the parsed CSV is an object with one string per column of the header. The key
  column \<open>project name\<close> is present in every dataset; any other column may be missing
  from the file, and reading it then gives \<open>undefined\<close> (\<open>None\<close>).
\<close>

record row =
  project_name :: string
  row_type :: "string option"
  row_fields :: "string option"
  row_schedule :: "string option"
  connected_projects :: "string option"
  row_color :: "string option"
  row_scale :: "string option"
  row_description :: "string option"
  previous_event :: "string option"
  photo_link :: "string option"

record node =
  id' :: string
  name :: string
  type :: string
  fields' :: "string list"
  schedule :: "string list"
  color :: string
  scale :: number
  description :: string
  previousEvent :: string
  photoLink :: string
  connectedProjects :: "string list"

record link =
  source :: string
  target :: string

record graph_data =
  nodes :: "node list"
  links :: "link list"

section \<open>Data loader and graph builder: \<open>normalizeData\<close>\<close>

text \<open>
  The three list columns are read the same way:
  \<open>c ? c.split(',').map(x => x.trim()).filter(x => x.length > 0) : []\<close>.
\<close>

definition parseList :: "string option \<Rightarrow> string list" where
  "parseList c =
     (case c of
        None \<Rightarrow> []
      | Some s \<Rightarrow> if s = [] then [] else filter (\<lambda>x. length x > 0) (map trim (split s '','')))"

text \<open>
  The node of a row. The revisions of the application differ only in how they read the
  photo column, so that step is a parameter.
\<close>

definition makeNode :: "(string option \<Rightarrow> string) \<Rightarrow> row \<Rightarrow> node" where
  "makeNode photo r =
     \<lparr> id' = project_name r,
       name = project_name r,
       type = str_or (row_type r) [],
       fields' = parseList (row_fields r),
       schedule = parseList (row_schedule r),
       color = str_or (row_color r) ''#E673C8'',
       scale = num_or (parseFloat (ToString (row_scale r))) (Num 1),
       description = str_or (row_description r) [],
       previousEvent = str_or (previous_event r) [],
       photoLink = photo (photo_link r),
       connectedProjects = parseList (connected_projects r) \<rparr>"

text \<open>
  \<open>projectMap.set(node.id, node)\<close> for each node in turn: a later row replaces an
  earlier one of the same name.
\<close>

definition projectMapOf :: "node list \<Rightarrow> (string \<rightharpoonup> node)" where
  "projectMapOf ns = foldl (\<lambda>m n. m(id' n \<mapsto> n)) Map.empty ns"

definition linkId :: "string \<Rightarrow> string \<Rightarrow> string" where
  "linkId a b = join (sort_pair a b) ''|''"

text \<open>The body of the inner \<open>forEach\<close>; the state is \<open>linkSet\<close> and \<open>links\<close>.\<close>

definition addLink :: "(string \<rightharpoonup> node) \<Rightarrow> node \<Rightarrow> str_set \<times> link list \<Rightarrow> string \<Rightarrow> str_set \<times> link list" where
  "addLink projectMap n st connectedName =
     (case projectMap connectedName of
        None \<Rightarrow> st
      | Some targetNode \<Rightarrow>
          if id' targetNode \<noteq> id' n then
            (if \<not> has (fst st) (linkId (id' n) (id' targetNode))
             then (add (fst st) (linkId (id' n) (id' targetNode)),
                   snd st @ [\<lparr> source = id' n, target = id' targetNode \<rparr>])
             else st)
          else st)"

definition buildLinks :: "(string \<rightharpoonup> node) \<Rightarrow> node list \<Rightarrow> str_set \<times> link list" where
  "buildLinks projectMap ns =
     foldl (\<lambda>st n. foldl (addLink projectMap n) st (connectedProjects n)) ([], []) ns"

definition normalizeWith :: "(string option \<Rightarrow> string) \<Rightarrow> row list \<Rightarrow> graph_data" where
  "normalizeWith photo csvData =
     (let ns = map (makeNode photo) csvData
      in \<lparr> nodes = ns, links = snd (buildLinks (projectMapOf ns) ns) \<rparr>)"

text \<open>\<open>main.js\<close>: the photo link is kept as it is (\<open>row['photo link'] || ''\<close>).\<close>

definition normalizeData :: "row list \<Rightarrow> graph_data" where
  "normalizeData csvData = normalizeWith (\<lambda>p. str_or p []) csvData"

subsection \<open>Photo links of the later revision\<close>

text \<open>
  The revision with photo clipping rewrites a Google Drive share link:
  \<^verbatim>\<open>
    let photoLink = row['photo link'] || '';
    if (photoLink && photoLink.trim() !== '') {
      if (photoLink.includes('drive.google.com') && photoLink.includes('/d/')) {
        const parts = photoLink.split('/d/');
        if (parts.length > 1) {
          const fileId = parts[1].split('/')[0].split('?')[0];
          photoLink = `https://drive.google.com/thumbnail?id=${fileId}&sz=w1000`;
  \<close>
  \<open>split\<close> never returns an empty array, so the reads of element \<open>0\<close> are \<open>hd\<close>;
  \<open>parts[1]\<close> is read under the length test.
\<close>

definition thumbnailUrl :: "string \<Rightarrow> string" where
  "thumbnailUrl fileId = ''https://drive.google.com/thumbnail?id='' @ fileId @ ''&sz=w1000''"

definition normalizePhotoLink :: "string option \<Rightarrow> string" where
  "normalizePhotoLink p =
     (let photoLink = str_or p []
      in if photoLink \<noteq> [] \<and> trim photoLink \<noteq> [] then
           (if includes_str photoLink ''drive.google.com'' \<and> includes_str photoLink ''/d/'' then
              (let parts = split photoLink ''/d/''
               in if length parts > 1
                  then thumbnailUrl (hd (split (hd (split (parts ! 1) ''/'')) ''?''))
                  else photoLink)
            else photoLink)
         else photoLink)"

definition normalizeData_photo :: "row list \<Rightarrow> graph_data" where
  "normalizeData_photo csvData = normalizeWith normalizePhotoLink csvData"

section \<open>Filter engine\<close>

record filters =
  selectedTypes :: str_set
  selectedFields :: str_set
  searchQuery :: string

text \<open>
  \<open>main.js\<close>, the callback of \<open>applyFilters\<close>: three tests one after the other, each
  returning the dimmed opacity when it fails.
\<close>

definition filterOpacity :: "'a filters_scheme \<Rightarrow> node \<Rightarrow> real" where
  "filterOpacity f d =
     (if size_set (selectedTypes f) > 0 \<and> \<not> has (selectedTypes f) (type d) then 0.2
      else if size_set (selectedFields f) > 0
              \<and> \<not> list_ex (\<lambda>field. has (selectedFields f) field) (fields' d) then 0.2
      else if searchQuery f \<noteq> []
              \<and> \<not> includes_str (toLowerCase (name d)) (toLowerCase (searchQuery f)) then 0.2
      else 1)"

text \<open>
  The latest revision computes the opacity in an \<open>if / else if / else if\<close> chain whose
  second branch is entered whenever a field is selected:
  \<^verbatim>\<open>
    let opacity = 1;
    if (selectedTypes.size > 0 && !selectedTypes.has(d.type)) { opacity = 0.15; }
    else if (selectedFields.size > 0) {
      const hasMatchingField = d.fields.some(field => selectedFields.has(field));
      if (!hasMatchingField) { opacity = 0.15; }
    }
    else if (searchQuery && !d.name.toLowerCase().includes(searchQuery.toLowerCase())) {
      opacity = 0.15;
    }
  \<close>
\<close>

definition filterOpacity_chain :: "'a filters_scheme \<Rightarrow> node \<Rightarrow> real" where
  "filterOpacity_chain f d =
     (if size_set (selectedTypes f) > 0 \<and> \<not> has (selectedTypes f) (type d) then 0.15
      else if size_set (selectedFields f) > 0 then
        (if \<not> list_ex (\<lambda>field. has (selectedFields f) field) (fields' d) then 0.15 else 1)
      else if searchQuery f \<noteq> []
              \<and> \<not> includes_str (toLowerCase (name d)) (toLowerCase (searchQuery f)) then 0.15
      else 1)"

text \<open>
  The priority chain of the specification, in its words: the three reasons for dimming
  a node, tried in order.
\<close>

datatype visibility = Dimmed | FullyVisible

definition typeExcluded :: "'a filters_scheme \<Rightarrow> node \<Rightarrow> bool" where
  "typeExcluded f d = (selectedTypes f \<noteq> [] \<and> type d \<notin> set (selectedTypes f))"

definition fieldsExcluded :: "'a filters_scheme \<Rightarrow> node \<Rightarrow> bool" where
  "fieldsExcluded f d = (selectedFields f \<noteq> [] \<and> set (fields' d) \<inter> set (selectedFields f) = {})"

definition searchExcluded :: "'a filters_scheme \<Rightarrow> node \<Rightarrow> bool" where
  "searchExcluded f d =
     (searchQuery f \<noteq> [] \<and> \<not> includes_str (toLowerCase (name d)) (toLowerCase (searchQuery f)))"

definition priorityChain :: "'a filters_scheme \<Rightarrow> node \<Rightarrow> visibility" where
  "priorityChain f d =
     (if typeExcluded f d then Dimmed
      else if fieldsExcluded f d then Dimmed
      else if searchExcluded f d then Dimmed
      else FullyVisible)"

text \<open>An opacity of 1 is full visibility; any smaller one is dimmed.\<close>

definition visibilityOf :: "real \<Rightarrow> visibility" where
  "visibilityOf opacity = (if opacity < 1 then Dimmed else FullyVisible)"

section \<open>Rendered elements and application state\<close>

text \<open>
  A selection of node elements is the list of data with the \<open>opacity\<close> attribute of
  each; a selection of link lines carries the \<open>highlighted\<close> class and the
  \<open>stroke-opacity\<close> attribute. The selections are \<open>null\<close> (\<open>None\<close>) until the
  visualization has been built.
\<close>

record node_group =
  datum :: node
  opacity :: real

record link_elem =
  link_datum :: link
  highlighted :: bool
  stroke_opacity :: real

text \<open>
  \<open>fieldFilterElements\<close> maps a field to its tag in the side panel; of the tag only its
  \<open>active\<close> class matters. \<open>popup\<close> is the node whose popup is displayed, if any.
\<close>

record app_state = filters +
  fieldFilterElements :: "string \<rightharpoonup> bool"
  clickedNode :: "node option"
  hoveredNode :: "node option"
  nodeGroups :: "node_group list option"
  linkElements :: "link_elem list option"
  popup :: "node option"

datatype js_error = TypeError

text \<open>\<open>main.js\<close>: \<open>applyFilters\<close> sets the opacity of every node element, if there are any.\<close>

definition applyFilters :: "'a filters_scheme \<Rightarrow> node_group list option \<Rightarrow> node_group list option" where
  "applyFilters f nodeElements =
     (case nodeElements of
        None \<Rightarrow> None
      | Some es \<Rightarrow> Some (map (\<lambda>e. e\<lparr> opacity := filterOpacity f (datum e) \<rparr>) es))"

text \<open>
  The latest revision first fills \<open>nodeOpacityMap\<close>, keyed by node id, and then reads
  it back with \<open>nodeOpacityMap.get(id) || 1\<close> for the node groups and for the two ends of
  every link.
\<close>

definition getOr1 :: "(string \<rightharpoonup> real) \<Rightarrow> string \<Rightarrow> real" where
  "getOr1 m k = (case m k of None \<Rightarrow> 1 | Some v \<Rightarrow> if v = 0 then 1 else v)"

definition opacityMap :: "(node \<Rightarrow> real) \<Rightarrow> node_group list \<Rightarrow> (string \<rightharpoonup> real)" where
  "opacityMap f gs = foldl (\<lambda>m g. m(id' (datum g) \<mapsto> f (datum g))) Map.empty gs"

definition applyFilters_chain :: "app_state \<Rightarrow> app_state" where
  "applyFilters_chain s =
     (case nodeGroups s of
        None \<Rightarrow> s
      | Some gs \<Rightarrow>
          (case linkElements s of
             None \<Rightarrow> s
           | Some ls \<Rightarrow>
               let nodeOpacityMap = opacityMap (filterOpacity_chain s) gs
               in s\<lparr> nodeGroups :=
                       Some (map (\<lambda>g. g\<lparr> opacity := getOr1 nodeOpacityMap (id' (datum g)) \<rparr>) gs),
                     linkElements :=
                       Some (map (\<lambda>l. l\<lparr> stroke_opacity :=
                                   min (getOr1 nodeOpacityMap (source (link_datum l)))
                                       (getOr1 nodeOpacityMap (target (link_datum l))) \<rparr>) ls) \<rparr>))"

subsection \<open>Field filter toggles\<close>

definition setFieldFilterState :: "string \<Rightarrow> bool \<Rightarrow> bool \<Rightarrow> app_state \<Rightarrow> app_state" where
  "setFieldFilterState field shouldBeActive apply s =
     (let s1 = (case fieldFilterElements s field of
                  None \<Rightarrow> s
                | Some tag \<Rightarrow> s\<lparr> fieldFilterElements := (fieldFilterElements s)(field \<mapsto> shouldBeActive) \<rparr>);
          s2 = (if shouldBeActive
                then s1\<lparr> selectedFields := add (selectedFields s1) field \<rparr>
                else s1\<lparr> selectedFields := delete (selectedFields s1) field \<rparr>)
      in if apply then applyFilters_chain s2 else s2)"

definition toggleFieldFilter :: "string \<Rightarrow> app_state \<Rightarrow> app_state" where
  "toggleFieldFilter field s = setFieldFilterState field (\<not> has (selectedFields s) field) True s"

section \<open>Interaction controller\<close>

text \<open>
  \<open>connectedIds\<close>: the hovered or clicked node and every node at the other end of one of
  its links.
\<close>

definition connectedIds :: "node \<Rightarrow> link_elem list \<Rightarrow> str_set" where
  "connectedIds d ls =
     foldl (\<lambda>S l.
        let S1 = (if source (link_datum l) = id' d then add S (target (link_datum l)) else S)
        in if target (link_datum l) = id' d then add S1 (source (link_datum l)) else S1)
       [id' d] ls"

definition highlightLinks :: "node \<Rightarrow> (string \<rightharpoonup> real) \<Rightarrow> link_elem list \<Rightarrow> link_elem list" where
  "highlightLinks d nodeOpacityMap ls =
     map (\<lambda>l.
        let isConnected = (source (link_datum l) = id' d \<or> target (link_datum l) = id' d)
        in l\<lparr> highlighted := isConnected,
              stroke_opacity :=
                (if isConnected then 1
                 else min (getOr1 nodeOpacityMap (source (link_datum l)))
                          (getOr1 nodeOpacityMap (target (link_datum l)))) \<rparr>) ls"

definition hoverOpacity :: "node \<Rightarrow> str_set \<Rightarrow> node \<Rightarrow> real" where
  "hoverOpacity d ids n =
     (if id' n = id' d then 1
      else if has ids (id' n) then 1
      else if type n = type d then 1
      else 0.15)"

definition clickOpacity :: "node \<Rightarrow> str_set \<Rightarrow> node \<Rightarrow> real" where
  "clickOpacity d ids n =
     (if id' n = id' d then 1
      else if has ids (id' n) then 1
      else 0.15)"

text \<open>
  \<open>handleNodeHover\<close> of the latest revision. Its first statement returns when another
  node is clicked. The selections are read without a null test, so the handler throws
  when they are missing.
\<close>

definition handleNodeHover :: "node \<Rightarrow> app_state \<Rightarrow> js_error + app_state" where
  "handleNodeHover d s =
     (if (case clickedNode s of None \<Rightarrow> False | Some c \<Rightarrow> id' c \<noteq> id' d) then Inr s
      else
        (case (linkElements s, nodeGroups s) of
           (Some ls, Some gs) \<Rightarrow>
             let ids = connectedIds d ls;
                 nodeOpacityMap = opacityMap (hoverOpacity d ids) gs;
                 s1 = s\<lparr> hoveredNode := Some d,
                         linkElements := Some (highlightLinks d nodeOpacityMap ls),
                         nodeGroups :=
                           Some (map (\<lambda>g. g\<lparr> opacity := getOr1 nodeOpacityMap (id' (datum g)) \<rparr>) gs) \<rparr>
             in Inr (if (case clickedNode s of None \<Rightarrow> True | Some c \<Rightarrow> id' c = id' d)
                     then s1\<lparr> popup := Some d \<rparr> else s1)
         | _ \<Rightarrow> Inl TypeError))"

definition handleNodeClick :: "node \<Rightarrow> app_state \<Rightarrow> js_error + app_state" where
  "handleNodeClick d s =
     (case (linkElements s, nodeGroups s) of
        (Some ls, Some gs) \<Rightarrow>
          let ids = connectedIds d ls;
              nodeOpacityMap = opacityMap (clickOpacity d ids) gs
          in Inr (s\<lparr> clickedNode := Some d,
                      linkElements := Some (highlightLinks d nodeOpacityMap ls),
                      nodeGroups :=
                        Some (map (\<lambda>g. g\<lparr> opacity := getOr1 nodeOpacityMap (id' (datum g)) \<rparr>) gs),
                      popup := Some d \<rparr>)
      | _ \<Rightarrow> Inl TypeError)"

section \<open>Layout: the schedule scale\<close>

definition SCHEDULE_ORDER :: "string list" where
  "SCHEDULE_ORDER = [''Winter'', ''Spring'', ''Summer'', ''Fall'']"

text \<open>
  The point scale of the d3 library, which is not part of the repository, as its
  documentation and source define it: a band scale of band width zero. With \<open>n\<close> domain
  values, range \<open>[r0, r1]\<close>, outer padding \<open>p\<close> and the default alignment 0.5, the step is
  \<open>(stop - start) / max(1, n - 1 + 2p)\<close>, the first point lies at
  \<open>start + (stop - start - step (n - 1)) / 2\<close>, and the points are reversed when the range
  is descending. Applied to a value outside its domain the scale returns \<open>undefined\<close>.
\<close>

record point_scale =
  scale_domain :: "string list"
  scale_range :: "real \<times> real"
  scale_padding :: real

definition pointPositions :: "point_scale \<Rightarrow> real list" where
  "pointPositions sc =
     (let n = length (scale_domain sc);
          r0 = fst (scale_range sc);
          r1 = snd (scale_range sc);
          reverse = (r1 < r0);
          start = (if reverse then r1 else r0);
          stop = (if reverse then r0 else r1);
          step = (stop - start) / max 1 (real n - 1 + scale_padding sc * 2);
          start' = start + (stop - start - step * (real n - 1)) * 0.5;
          values = map (\<lambda>i. start' + step * real i) [0 ..< n]
      in if reverse then rev values else values)"

definition scaleApply :: "point_scale \<Rightarrow> string \<Rightarrow> real option" where
  "scaleApply sc x = map_of (zip (scale_domain sc) (pointPositions sc)) x"

definition createScheduleScale :: "real \<Rightarrow> point_scale" where
  "createScheduleScale width =
     \<lparr> scale_domain = SCHEDULE_ORDER,
       scale_range = (width * 0.15, width * 0.85),
       scale_padding = 0.5 \<rparr>"

text \<open>
  \<open>getNodeXPosition\<close>: \<open>scheduleScale.range()[1] / 2\<close> for a node without schedule, and
  \<open>scheduleScale(firstSchedule) || scheduleScale.range()[1] / 2\<close> otherwise, where
  \<open>undefined\<close> and zero are falsy.
\<close>

definition getNodeXPosition :: "node \<Rightarrow> point_scale \<Rightarrow> real" where
  "getNodeXPosition n scheduleScale =
     (case schedule n of
        [] \<Rightarrow> snd (scale_range scheduleScale) / 2
      | firstSchedule # rest \<Rightarrow>
          (case scaleApply scheduleScale firstSchedule of
             None \<Rightarrow> snd (scale_range scheduleScale) / 2
           | Some x \<Rightarrow> if x = 0 then snd (scale_range scheduleScale) / 2 else x))"

text \<open>The midpoint of the range of a scale.\<close>

definition rangeMidpoint :: "point_scale \<Rightarrow> real" where
  "rangeMidpoint sc = (fst (scale_range sc) + snd (scale_range sc)) / 2"

section \<open>Start-up: \<open>loadData\<close> and \<open>init\<close>\<close>

text \<open>
  The awaited \<open>d3.csv\<close> promise either rejects with an error (\<open>Inl\<close>) or resolves with
  the rows. A function that may throw returns a sum in the same way. The console is the
  list of lines written to it.
\<close>

definition emptyData :: graph_data where
  "emptyData = \<lparr> nodes = [], links = [] \<rparr>"

definition loadData :: "string + row list \<Rightarrow> string list \<Rightarrow> (string + graph_data) \<times> string list" where
  "loadData fetched console =
     (case fetched of
        Inr data \<Rightarrow> (Inr (normalizeData data), console)
      | Inl error \<Rightarrow> (Inr emptyData, console @ [''Error loading CSV: '' @ error]))"

text \<open>
  \<open>initVisualization\<close> binds the data to new elements; an attribute that has not been
  set reads as 1. \<open>buildFilters\<close> creates one inactive tag per field of the dataset.
\<close>

definition initVisualization :: "graph_data \<Rightarrow> app_state" where
  "initVisualization data =
     \<lparr> selectedTypes = [], selectedFields = [], searchQuery = [],
       fieldFilterElements = Map.empty,
       clickedNode = None, hoveredNode = None,
       nodeGroups = Some (map (\<lambda>n. \<lparr> datum = n, opacity = 1 \<rparr>) (nodes data)),
       linkElements =
         Some (map (\<lambda>l. \<lparr> link_datum = l, highlighted = False, stroke_opacity = 1 \<rparr>) (links data)),
       popup = None \<rparr>"

definition buildFilters :: "node list \<Rightarrow> app_state \<Rightarrow> app_state" where
  "buildFilters ns s =
     s\<lparr> fieldFilterElements :=
          map_of (map (\<lambda>field. (field, has (selectedFields s) field)) (concat (map fields' ns))) \<rparr>"

text \<open>
  \<open>init\<close> returns the running application, or nothing when it stops at
  \<open>data.nodes.length === 0\<close>.
\<close>

definition init :: "string + row list \<Rightarrow> (string + app_state option) \<times> string list" where
  "init fetched =
     (case loadData fetched [] of
        (Inl error, console) \<Rightarrow> (Inl error, console)
      | (Inr data, console) \<Rightarrow>
          if length (nodes data) = 0 then (Inr None, console @ [''No data loaded''])
          else (Inr (Some (buildFilters (nodes data) (initVisualization data))), console))"

section \<open>Example datasets\<close>

definition mkRow :: "string \<Rightarrow> string \<Rightarrow> string \<Rightarrow> string \<Rightarrow> row" where
  "mkRow nm ty fs conns =
     \<lparr> project_name = nm, row_type = Some ty, row_fields = Some fs, row_schedule = Some [],
       connected_projects = Some conns, row_color = Some [], row_scale = Some [],
       row_description = Some [], previous_event = Some [], photo_link = Some [] \<rparr>"

text \<open>The three projects of the specification's example.\<close>

definition datasetABC :: "row list" where
  "datasetABC =
     [mkRow ''A'' ''Art'' ''paint,sculpture'' ''B'',
      mkRow ''B'' ''Music'' ''paint'' ''A,C'',
      mkRow ''C'' ''Music'' ''dance'' []]"

text \<open>A row whose scale is not a number.\<close>

definition rowBadScale :: row where
  "rowBadScale = (mkRow ''P'' ''Art'' ''paint'' [])\<lparr> row_scale := Some ''abc'' \<rparr>"

text \<open>A node written out, for the functions that take one.\<close>

definition nodeOf :: "string \<Rightarrow> string \<Rightarrow> string list \<Rightarrow> string list \<Rightarrow> node" where
  "nodeOf nm ty fs sched =
     \<lparr> id' = nm, name = nm, type = ty, fields' = fs, schedule = sched, color = ''#E673C8'',
       scale = Num 1, description = [], previousEvent = [], photoLink = [],
       connectedProjects = [] \<rparr>"

text \<open>An edge list as a set of unordered pairs of node identities.\<close>

definition edgeSet :: "link list \<Rightarrow> string set set" where
  "edgeSet ls = (\<lambda>l. {source l, target l}) ` set ls"

text \<open>The node elements of \<open>main.js\<close> as first drawn, and the opacity of each by node id.\<close>

definition renderNodes :: "node list \<Rightarrow> node_group list option" where
  "renderNodes ns = Some (map (\<lambda>n. \<lparr> datum = n, opacity = 1 \<rparr>) ns)"

definition opacities :: "node_group list option \<Rightarrow> (string \<times> real) list" where
  "opacities es = (case es of None \<Rightarrow> [] | Some gs \<Rightarrow> map (\<lambda>g. (id' (datum g), opacity g)) gs)"

definition paintOnly :: filters where
  "paintOnly = \<lparr> selectedTypes = [], selectedFields = [''paint''], searchQuery = [] \<rparr>"

definition paintAndSearch :: filters where
  "paintAndSearch = \<lparr> selectedTypes = [], selectedFields = [''paint''], searchQuery = ''zzz'' \<rparr>"

text \<open>The example dataset in the latest revision, as started and after a click on its first node.\<close>

definition startedABC :: app_state where
  "startedABC =
     buildFilters (nodes (normalizeData_photo datasetABC))
       (initVisualization (normalizeData_photo datasetABC))"

definition nodeABC :: "nat \<Rightarrow> node" where
  "nodeABC i = nodes (normalizeData_photo datasetABC) ! i"

definition clickedA :: app_state where
  "clickedA = (case handleNodeClick (nodeABC 0) startedABC of Inr s \<Rightarrow> s | Inl e \<Rightarrow> startedABC)"



text \<open>
  The key of a link, and what the graph builder maintains while it runs: \<open>linkSet\<close>
  holds exactly the keys of the links emitted so far, no key is emitted twice, and no
  link joins a node to itself.
\<close>

definition linkKey :: "link \<Rightarrow> string" where
  "linkKey l = linkId (source l) (target l)"

definition linksInvariant :: "str_set \<times> link list \<Rightarrow> bool" where
  "linksInvariant st =
     (set (fst st) = linkKey ` set (snd st)
      \<and> distinct (map linkKey (snd st))
      \<and> list_all (\<lambda>l. source l \<noteq> target l) (snd st))"

text \<open>Four projects, two of them with the character \<open>|\<close> in the name.\<close>

definition pipeDataset :: "row list" where
  "pipeDataset =
     [mkRow ''a|b'' ''Art'' [] ''c'',
      mkRow ''c'' ''Art'' [] [],
      mkRow ''a'' ''Art'' [] ''b|c'',
      mkRow ''b|c'' ''Art'' [] []]"


section \<open>Verified properties\<close>

subsection \<open>Scale of a node\<close>

lemma parseFloat_undefined: "parseFloat ''undefined'' = NaN"
  by (simp add: parseFloat_def unsignedLiteral_def isWhiteSpace_def startsWith_def
      isDigit_def digits_def)

lemma nodes_normalizeWith: "nodes (normalizeWith photo rows) = map (makeNode photo) rows"
  by (simp add: normalizeWith_def Let_def)

text \<open>
  Claim C9. A row whose \<open>scale\<close> column is missing, or holds a string that
  \<open>parseFloat\<close> does not read as a number, gives a node of scale exactly 1.
\<close>

theorem scale_defaults_to_one:
  "i < length rows \<Longrightarrow>
   row_scale (rows ! i) = None \<or> (\<exists>s. row_scale (rows ! i) = Some s \<and> parseFloat s = NaN) \<Longrightarrow>
   scale (nodes (normalizeData rows) ! i) = Num 1"
  by (auto simp: normalizeData_def nodes_normalizeWith makeNode_def num_or_def ToString_def
      parseFloat_undefined)

theorem scale_defaults_to_one_witness:
  "(0::nat) < length [rowBadScale] \<and> row_scale ([rowBadScale] ! 0) = Some ''abc''
   \<and> parseFloat ''abc'' = NaN \<and> scale (nodes (normalizeData [rowBadScale]) ! 0) = Num 1"
proof -
  have p: "parseFloat ''abc'' = NaN"
    by (simp add: parseFloat_def unsignedLiteral_def isWhiteSpace_def startsWith_def
        isDigit_def digits_def)
  have h: "row_scale ([rowBadScale] ! 0) = None
           \<or> (\<exists>s. row_scale ([rowBadScale] ! 0) = Some s \<and> parseFloat s = NaN)"
    by (simp add: rowBadScale_def mkRow_def p)
  show ?thesis
    using scale_defaults_to_one [of 0 "[rowBadScale]", OF _ h] p
    by (simp add: rowBadScale_def mkRow_def)
qed

subsection \<open>The example of the specification\<close>

lemma links_ABC:
  "links (normalizeData datasetABC)
     = [\<lparr> source = ''A'', target = ''B'' \<rparr>, \<lparr> source = ''B'', target = ''C'' \<rparr>]"
  by code_simp

text \<open>
  Claim C2, as stated: the dataset A, B, C gives exactly the edge A-B. It does not: B
  declares C, and C is a project of the dataset, so B-C is an edge as well.
\<close>

theorem example_edges_counterexample:
  "edgeSet (links (normalizeData datasetABC)) \<noteq> {{''A'', ''B''}}"
proof -
  have "{''B'', ''C''} \<in> edgeSet (links (normalizeData datasetABC))"
    by (simp add: links_ABC edgeSet_def)
  moreover have "{''B'', ''C''} \<notin> {{''A'', ''B''}}"
    by (simp add: doubleton_eq_iff)
  ultimately show ?thesis by metis
qed

text \<open>
  Claim C2, amended: the dataset A, B, C gives exactly the edges A-B and B-C, and with
  only the field \<open>paint\<close> selected the filter dims C and leaves A and B fully visible.
\<close>

theorem example_edges_and_filter:
  "edgeSet (links (normalizeData datasetABC)) = {{''A'', ''B''}, {''B'', ''C''}}
   \<and> opacities (applyFilters paintOnly (renderNodes (nodes (normalizeData datasetABC))))
       = [(''A'', 1), (''B'', 1), (''C'', 0.2)]"
proof -
  have "opacities (applyFilters paintOnly (renderNodes (nodes (normalizeData datasetABC))))
       = [(''A'', 1), (''B'', 1), (''C'', 0.2)]"
    by code_simp
  then show ?thesis by (simp add: links_ABC edgeSet_def)
qed

subsection \<open>The filter chain\<close>

text \<open>In \<open>main.js\<close> the computed opacity is the priority chain of the specification.\<close>

lemma filterOpacity_follows_chain: "visibilityOf (filterOpacity f d) = priorityChain f d"
  by (auto simp: filterOpacity_def priorityChain_def visibilityOf_def typeExcluded_def
      fieldsExcluded_def searchExcluded_def size_set_def has_def list_ex_iff)

lemma applyFilters_follows_chain:
  assumes "applyFilters f (Some es) = Some es'" "e \<in> set es'"
  shows "visibilityOf (opacity e) = priorityChain f (datum e)"
proof -
  obtain e0 where "e = e0\<lparr> opacity := filterOpacity f (datum e0) \<rparr>"
    using assms by (auto simp: applyFilters_def)
  then show ?thesis by (simp add: filterOpacity_follows_chain)
qed

text \<open>
  What the latest revision computes instead: once a field is selected the search is
  not consulted. The two agree when no field is selected or nothing is searched.
\<close>

lemma filterOpacity_chain_visibility:
  "visibilityOf (filterOpacity_chain f d)
     = (if typeExcluded f d then Dimmed
        else if selectedFields f \<noteq> [] then (if fieldsExcluded f d then Dimmed else FullyVisible)
        else if searchExcluded f d then Dimmed
        else FullyVisible)"
  by (auto simp: filterOpacity_chain_def visibilityOf_def typeExcluded_def
      fieldsExcluded_def searchExcluded_def size_set_def has_def list_ex_iff)

lemma filterOpacity_chain_agrees:
  "selectedFields f = [] \<or> searchQuery f = [] \<Longrightarrow>
   visibilityOf (filterOpacity_chain f d) = priorityChain f d"
  by (auto simp: filterOpacity_chain_visibility priorityChain_def fieldsExcluded_def
      searchExcluded_def)

text \<open>The same filters on the example dataset, in the latest revision and in \<open>main.js\<close>.\<close>

lemma applyFilters_chain_example:
  "opacities (nodeGroups (applyFilters_chain
      (startedABC\<lparr> selectedFields := [''paint''], searchQuery := ''zzz'' \<rparr>)))
     = [(''A'', 1), (''B'', 1), (''C'', 0.15)]"
  by code_simp

lemma applyFilters_example:
  "opacities (applyFilters paintAndSearch (renderNodes (nodes (normalizeData datasetABC))))
     = [(''A'', 0.2), (''B'', 0.2), (''C'', 0.2)]"
  by code_simp

text \<open>
  Claim C3. The visibility computed by \<open>applyFilters\<close> is the priority chain: type, then
  fields, then search. In the latest revision it is not: with the field \<open>paint\<close>
  selected and the search \<open>zzz\<close>, the node \<open>A\<close> with field \<open>paint\<close> stays fully visible,
  where the chain (and \<open>main.js\<close>) dims it, because the search test sits in an
  \<open>else\<close> branch of the field test.
\<close>

theorem chain_skips_search:
  "filterOpacity_chain paintAndSearch (nodeOf ''A'' ''Art'' [''paint'', ''sculpture''] []) = 1
   \<and> priorityChain paintAndSearch (nodeOf ''A'' ''Art'' [''paint'', ''sculpture''] []) = Dimmed
   \<and> filterOpacity paintAndSearch (nodeOf ''A'' ''Art'' [''paint'', ''sculpture''] []) = 0.2"
  by (simp add: filterOpacity_chain_def filterOpacity_def priorityChain_def paintAndSearch_def
      nodeOf_def typeExcluded_def fieldsExcluded_def searchExcluded_def size_set_def has_def
      toLowerCase_def toLowerChar_def upperCase_def lowerCase_def startsWith_def)

subsection \<open>Horizontal target of a node\<close>

lemma length_pointPositions: "length (pointPositions sc) = length (scale_domain sc)"
  by (simp add: pointPositions_def Let_def)

lemma scaleApply_outside_domain: "x \<notin> set (scale_domain sc) \<Longrightarrow> scaleApply sc x = None"
  by (simp add: scaleApply_def length_pointPositions)

text \<open>
  For every width, a node without schedule is sent to 0.425 of the width, and the
  midpoint of the range of the scale is half the width.
\<close>

lemma empty_schedule_position:
  "getNodeXPosition (n\<lparr> schedule := [] \<rparr>) (createScheduleScale w) = w * 0.425
   \<and> rangeMidpoint (createScheduleScale w) = w * 0.5"
  by (simp add: getNodeXPosition_def createScheduleScale_def rangeMidpoint_def algebra_simps)

text \<open>
  Claim C4. A node with an empty schedule gets the midpoint of the range of the schedule
  scale. The code returns half of the upper end of the range instead: at width 1000 the
  range is [150, 850], its midpoint is 500, and the node is sent to 425.
\<close>

theorem empty_schedule_not_midpoint:
  "getNodeXPosition (nodeOf ''P'' ''Art'' [] []) (createScheduleScale 1000) = 425
   \<and> rangeMidpoint (createScheduleScale 1000) = 500"
  by (simp add: getNodeXPosition_def createScheduleScale_def rangeMidpoint_def nodeOf_def)

text \<open>
  Claim C10. A node whose first schedule entry is none of Winter, Spring, Summer, Fall
  gets the same horizontal target as a node with an empty schedule.
\<close>

theorem unknown_season_default:
  "schedule n = firstSchedule # rest \<Longrightarrow> firstSchedule \<notin> set SCHEDULE_ORDER \<Longrightarrow>
   getNodeXPosition n (createScheduleScale w)
     = getNodeXPosition (n\<lparr> schedule := [] \<rparr>) (createScheduleScale w)"
  by (simp add: getNodeXPosition_def scaleApply_outside_domain createScheduleScale_def)

theorem unknown_season_default_witness:
  "schedule (nodeOf ''P'' ''Art'' [] [''Autumn'', ''Winter'']) = ''Autumn'' # [''Winter'']
   \<and> ''Autumn'' \<notin> set SCHEDULE_ORDER
   \<and> getNodeXPosition (nodeOf ''P'' ''Art'' [] [''Autumn'', ''Winter'']) (createScheduleScale 1000) = 425
   \<and> getNodeXPosition ((nodeOf ''P'' ''Art'' [] [''Autumn'', ''Winter''])\<lparr> schedule := [] \<rparr>)
        (createScheduleScale 1000) = 425"
proof -
  have a: "schedule (nodeOf ''P'' ''Art'' [] [''Autumn'', ''Winter'']) = ''Autumn'' # [''Winter'']"
    by (simp add: nodeOf_def)
  have b: "''Autumn'' \<notin> set SCHEDULE_ORDER"
    by (simp add: SCHEDULE_ORDER_def)
  have c: "getNodeXPosition ((nodeOf ''P'' ''Art'' [] [''Autumn'', ''Winter''])\<lparr> schedule := [] \<rparr>)
             (createScheduleScale 1000) = 425"
    by (simp add: getNodeXPosition_def createScheduleScale_def)
  show ?thesis
    using unknown_season_default [OF a b, of 1000] a b c by simp
qed

subsection \<open>Failure of the fetch\<close>


subsection \<open>Hover while a node is clicked\<close>

text \<open>Without a click, pointer-enter on a node makes it the hovered node and opens its popup.\<close>

lemma hover_without_click:
  "clickedNode s = None \<Longrightarrow> linkElements s = Some ls \<Longrightarrow> nodeGroups s = Some gs \<Longrightarrow>
   \<exists>s'. handleNodeHover n s = Inr s' \<and> hoveredNode s' = Some n \<and> popup s' = Some n"
  by (simp add: handleNodeHover_def Let_def)

lemma click_sets_clicked:
  "linkElements s = Some ls \<Longrightarrow> nodeGroups s = Some gs \<Longrightarrow>
   \<exists>s'. handleNodeClick m s = Inr s' \<and> clickedNode s' = Some m \<and> popup s' = Some m"
  by (simp add: handleNodeClick_def Let_def)

text \<open>
  Claim C5. While a node \<open>m\<close> is clicked, pointer-enter on a node with another identity
  changes nothing: no popup, no hover state, no highlighting.
\<close>

theorem hover_suppressed_by_click:
  "clickedNode s = Some m \<Longrightarrow> id' n \<noteq> id' m \<Longrightarrow> handleNodeHover n s = Inr s"
  by (simp add: handleNodeHover_def)

theorem hover_suppressed_by_click_witness:
  "clickedNode clickedA = Some (nodeABC 0) \<and> id' (nodeABC 2) \<noteq> id' (nodeABC 0)
   \<and> handleNodeHover (nodeABC 2) clickedA = Inr clickedA"
proof -
  have a: "clickedNode clickedA = Some (nodeABC 0)"
    by (simp add: clickedA_def handleNodeClick_def startedABC_def initVisualization_def
        buildFilters_def Let_def)
  have b: "id' (nodeABC 2) \<noteq> id' (nodeABC 0)"
    by code_simp
  show ?thesis
    using hover_suppressed_by_click [OF a b] a b by simp
qed

subsection \<open>Photo links\<close>
















subsection \<open>Toggling a field filter twice\<close>

lemma delete_add: "\<not> has S f \<Longrightarrow> delete (add S f) f = S"
  by (auto simp: has_def add_def delete_def filter_id_conv)

lemma has_add: "has (add S f) f"
  by (simp add: has_def add_def)

lemma filterOpacity_chain_cong:
  "selectedTypes a = selectedTypes b \<Longrightarrow> selectedFields a = selectedFields b \<Longrightarrow>
   searchQuery a = searchQuery b \<Longrightarrow> filterOpacity_chain a = filterOpacity_chain b"
  by (rule ext) (simp add: filterOpacity_chain_def)

lemma opacityMap_opacity_update:
  "opacityMap f (map (\<lambda>g. g\<lparr> opacity := h g \<rparr>) gs) = opacityMap f gs"
  by (simp add: opacityMap_def foldl_map)

lemma applyFilters_chain_filters:
  "selectedTypes (applyFilters_chain s) = selectedTypes s"
  "selectedFields (applyFilters_chain s) = selectedFields s"
  "searchQuery (applyFilters_chain s) = searchQuery s"
  "fieldFilterElements (applyFilters_chain s) = fieldFilterElements s"
  by (simp_all add: applyFilters_chain_def Let_def split: option.splits)

text \<open>
  What \<open>applyFilters\<close> writes depends on the filters and on the bound data only, not on
  the opacities an earlier run has left.
\<close>

lemma applyFilters_chain_again:
  assumes "selectedTypes t = selectedTypes s" "selectedFields t = selectedFields s"
    "searchQuery t = searchQuery s"
    "nodeGroups t = nodeGroups (applyFilters_chain u)"
    "linkElements t = linkElements (applyFilters_chain u)"
    "nodeGroups u = nodeGroups s" "linkElements u = linkElements s"
  shows "nodeGroups (applyFilters_chain t) = nodeGroups (applyFilters_chain s)
       \<and> linkElements (applyFilters_chain t) = linkElements (applyFilters_chain s)"
proof -
  have c: "filterOpacity_chain t = filterOpacity_chain s"
    using assms(1-3) by (rule filterOpacity_chain_cong)
  show ?thesis
  proof (cases "nodeGroups s")
    case None
    then show ?thesis using assms by (simp add: applyFilters_chain_def)
  next
    case (Some gs)
    note gs = this
    show ?thesis
    proof (cases "linkElements s")
      case None
      then show ?thesis using assms gs by (simp add: applyFilters_chain_def)
    next
      case (Some ls)
      then show ?thesis
        using assms(4-7) gs c
        by (simp add: applyFilters_chain_def Let_def opacityMap_opacity_update o_def)
    qed
  qed
qed

text \<open>
  Claim C7. When field \<open>f\<close> is not selected, two calls of \<open>toggleFieldFilter(f)\<close> leave
  \<open>selectedFields\<close> (and the other two filters) exactly as they were, so every node's
  computed opacity is as before the toggles, and the node and link elements carry what
  \<open>applyFilters\<close> computes in the state before the toggles.
\<close>

theorem toggle_field_twice:
  assumes "\<not> has (selectedFields s) f"
  shows "selectedFields (toggleFieldFilter f (toggleFieldFilter f s)) = selectedFields s
   \<and> selectedTypes (toggleFieldFilter f (toggleFieldFilter f s)) = selectedTypes s
   \<and> searchQuery (toggleFieldFilter f (toggleFieldFilter f s)) = searchQuery s
   \<and> filterOpacity_chain (toggleFieldFilter f (toggleFieldFilter f s)) = filterOpacity_chain s
   \<and> nodeGroups (toggleFieldFilter f (toggleFieldFilter f s)) = nodeGroups (applyFilters_chain s)
   \<and> linkElements (toggleFieldFilter f (toggleFieldFilter f s)) = linkElements (applyFilters_chain s)"
proof -
  define u where "u = (case fieldFilterElements s f of None \<Rightarrow> s
      | Some tag \<Rightarrow> s\<lparr> fieldFilterElements := (fieldFilterElements s)(f \<mapsto> True) \<rparr>)
        \<lparr> selectedFields := add (selectedFields s) f \<rparr>"
  define s1 where "s1 = toggleFieldFilter f s"
  have s1: "s1 = applyFilters_chain u"
    using assms
    by (simp add: s1_def u_def toggleFieldFilter_def setFieldFilterState_def Let_def
        split: option.splits)
  have u: "selectedTypes u = selectedTypes s" "searchQuery u = searchQuery s"
    "selectedFields u = add (selectedFields s) f"
    "nodeGroups u = nodeGroups s" "linkElements u = linkElements s"
    by (simp_all add: u_def split: option.splits)
  have on: "has (selectedFields s1) f"
    by (simp add: s1 applyFilters_chain_filters u has_add)
  define t where "t = (case fieldFilterElements s1 f of None \<Rightarrow> s1
      | Some tag \<Rightarrow> s1\<lparr> fieldFilterElements := (fieldFilterElements s1)(f \<mapsto> False) \<rparr>)
        \<lparr> selectedFields := delete (selectedFields s1) f \<rparr>"
  have s2: "toggleFieldFilter f s1 = applyFilters_chain t"
    using on
    by (simp add: t_def toggleFieldFilter_def setFieldFilterState_def Let_def
        split: option.splits)
  have t: "selectedTypes t = selectedTypes s" "searchQuery t = searchQuery s"
    "selectedFields t = selectedFields s"
    "nodeGroups t = nodeGroups (applyFilters_chain u)"
    "linkElements t = linkElements (applyFilters_chain u)"
    using assms
    by (simp_all add: t_def s1 applyFilters_chain_filters u delete_add split: option.splits)
  have r: "nodeGroups (applyFilters_chain t) = nodeGroups (applyFilters_chain s)
       \<and> linkElements (applyFilters_chain t) = linkElements (applyFilters_chain s)"
    using t(1) t(3) t(2) t(4) t(5) u(4) u(5) by (rule applyFilters_chain_again)
  have c: "filterOpacity_chain (applyFilters_chain t) = filterOpacity_chain s"
    by (rule filterOpacity_chain_cong) (simp_all add: applyFilters_chain_filters t)
  show ?thesis
    using r c by (simp add: s1_def [symmetric] s2 applyFilters_chain_filters t)
qed

theorem toggle_field_twice_witness:
  "\<not> has (selectedFields startedABC) ''paint''
   \<and> selectedFields (toggleFieldFilter ''paint'' startedABC) = [''paint'']
   \<and> opacities (nodeGroups (toggleFieldFilter ''paint'' startedABC))
       = [(''A'', 1), (''B'', 1), (''C'', 0.15)]
   \<and> selectedFields (toggleFieldFilter ''paint'' (toggleFieldFilter ''paint'' startedABC)) = []
   \<and> opacities (nodeGroups (toggleFieldFilter ''paint'' (toggleFieldFilter ''paint'' startedABC)))
       = [(''A'', 1), (''B'', 1), (''C'', 1)]"
proof -
  have h: "\<not> has (selectedFields startedABC) ''paint''"
    by (simp add: startedABC_def initVisualization_def buildFilters_def has_def)
  have e: "selectedFields startedABC = []"
    by (simp add: startedABC_def initVisualization_def buildFilters_def)
  have m: "selectedFields (toggleFieldFilter ''paint'' startedABC) = [''paint'']"
    by code_simp
  have n: "opacities (nodeGroups (toggleFieldFilter ''paint'' startedABC))
       = [(''A'', 1), (''B'', 1), (''C'', 0.15)]"
    by code_simp
  have a: "opacities (nodeGroups (applyFilters_chain startedABC))
       = [(''A'', 1), (''B'', 1), (''C'', 1)]"
    by code_simp
  show ?thesis
    using toggle_field_twice [OF h] h e m n a by simp
qed

subsection \<open>Edges of the graph\<close>

lemma str_less_asym: "str_less a b \<Longrightarrow> \<not> str_less b a"
  by (induction a b rule: str_less.induct) (auto split: if_splits)

lemma str_less_total: "a \<noteq> b \<Longrightarrow> str_less a b \<or> str_less b a"
  by (induction a b rule: str_less.induct) (auto split: if_splits)

lemma linkId_commute: "linkId a b = linkId b a"
proof (cases "a = b")
  case True
  then show ?thesis by simp
next
  case False
  then show ?thesis
    using str_less_asym [of a b] str_less_asym [of b a] str_less_total [of a b]
    by (auto simp: linkId_def sort_pair_def)
qed

lemma linkKey_unordered: "{source k, target k} = {source l, target l} \<Longrightarrow> linkKey k = linkKey l"
  by (auto simp: linkKey_def doubleton_eq_iff linkId_commute)

lemma addLink_invariant:
  assumes i: "linksInvariant st"
  shows "linksInvariant (addLink pm n st c)"
proof (cases "pm c")
  case None
  then show ?thesis using i by (simp add: addLink_def)
next
  case (Some t)
  show ?thesis
  proof (cases "id' t \<noteq> id' n \<and> \<not> has (fst st) (linkId (id' n) (id' t))")
    case False
    then show ?thesis
      using Some i by (auto simp: addLink_def)
  next
    case True
    have a: "addLink pm n st c
        = (fst st @ [linkId (id' n) (id' t)], snd st @ [\<lparr> source = id' n, target = id' t \<rparr>])"
      using True Some by (simp add: addLink_def add_def)
    have "linkId (id' n) (id' t) \<notin> linkKey ` set (snd st)"
      using True i by (simp add: linksInvariant_def has_def)
    then show ?thesis
      using i True by (auto simp: a linksInvariant_def linkKey_def)
  qed
qed

lemma foldl_invariant:
  assumes step: "\<And>st x. P st \<Longrightarrow> P (f st x)" and init: "P st"
  shows "P (foldl f st xs)"
  using init
proof (induction xs arbitrary: st)
  case Nil
  then show ?case by simp
next
  case (Cons x xs)
  have "P (f st x)" using Cons.prems by (rule step)
  then have "P (foldl f (f st x) xs)" by (rule Cons.IH)
  then show ?case by simp
qed

lemma distinct_map_coarser:
  assumes d: "distinct (map f xs)" and c: "\<And>x y. h x = h y \<Longrightarrow> f x = f y"
  shows "distinct (map h xs)"
proof -
  have "inj_on h (set xs)"
  proof (rule inj_onI)
    fix x y assume "x \<in> set xs" "y \<in> set xs" "h x = h y"
    then show "x = y" using d c [of x y] by (auto simp: distinct_map inj_on_def)
  qed
  then show ?thesis using d by (simp add: distinct_map)
qed

lemma foldl_addLink_invariant:
  "linksInvariant st \<Longrightarrow> linksInvariant (foldl (addLink pm n) st cs)"
  by (rule foldl_invariant [where P = linksInvariant and f = "addLink pm n"])
     (rule addLink_invariant)

lemma buildLinks_invariant: "linksInvariant (buildLinks pm ns)"
proof -
  have outer: "linksInvariant (foldl (\<lambda>st n. foldl (addLink pm n) st (connectedProjects n)) st ns)"
    if "linksInvariant st" for st
    using that
  proof (induction ns arbitrary: st)
    case Nil
    then show ?case by simp
  next
    case (Cons n ns)
    have "linksInvariant (foldl (addLink pm n) st (connectedProjects n))"
      using Cons.prems by (rule foldl_addLink_invariant)
    then have "linksInvariant (foldl (\<lambda>st n. foldl (addLink pm n) st (connectedProjects n))
        (foldl (addLink pm n) st (connectedProjects n)) ns)"
      by (rule Cons.IH)
    then show ?case by simp
  qed
  have "linksInvariant ([], [])" by (simp add: linksInvariant_def)
  then show ?thesis unfolding buildLinks_def by (rule outer)
qed

text \<open>
  For every dataset the edge list has no self-loop and no two edges on the same
  unordered pair of identities.
\<close>

lemma links_no_loops_no_duplicates:
  "list_all (\<lambda>l. source l \<noteq> target l) (links (normalizeWith photo rows))
   \<and> distinct (map (\<lambda>l. {source l, target l}) (links (normalizeWith photo rows)))"
proof -
  let ?ns = "map (makeNode photo) rows"
  have i: "linksInvariant (buildLinks (projectMapOf ?ns) ?ns)"
    by (rule buildLinks_invariant)
  then have "distinct (map linkKey (snd (buildLinks (projectMapOf ?ns) ?ns)))"
    by (simp add: linksInvariant_def)
  then have "distinct (map (\<lambda>l. {source l, target l}) (snd (buildLinks (projectMapOf ?ns) ?ns)))"
    by (rule distinct_map_coarser) (rule linkKey_unordered)
  then show ?thesis using i by (simp add: normalizeWith_def Let_def linksInvariant_def)
qed

lemma addLink_grows: "set (fst st) \<subseteq> set (fst (addLink pm n st c))"
  by (auto simp: addLink_def add_def split: option.splits)

lemma foldl_addLink_grows: "set (fst st) \<subseteq> set (fst (foldl (addLink pm n) st cs))"
proof (induction cs arbitrary: st)
  case Nil
  then show ?case by simp
next
  case (Cons c cs)
  have "set (fst st) \<subseteq> set (fst (addLink pm n st c))" by (rule addLink_grows)
  also have "\<dots> \<subseteq> set (fst (foldl (addLink pm n) (addLink pm n st c) cs))" by (rule Cons.IH)
  finally show ?case by simp
qed

lemma addLink_records_key:
  "pm c = Some t \<Longrightarrow> id' t \<noteq> id' n \<Longrightarrow> linkId (id' n) (id' t) \<in> set (fst (addLink pm n st c))"
  by (simp add: addLink_def add_def has_def)

lemma foldl_addLink_records_key:
  "c \<in> set cs \<Longrightarrow> pm c = Some t \<Longrightarrow> id' t \<noteq> id' n \<Longrightarrow>
   linkId (id' n) (id' t) \<in> set (fst (foldl (addLink pm n) st cs))"
proof (induction cs arbitrary: st)
  case Nil
  then show ?case by simp
next
  case (Cons d cs)
  show ?case
  proof (cases "c = d")
    case True
    then have "linkId (id' n) (id' t) \<in> set (fst (addLink pm n st d))"
      using Cons.prems by (simp add: addLink_records_key)
    then show ?thesis
      using foldl_addLink_grows [of "addLink pm n st d" pm n cs] by auto
  next
    case False
    then have "c \<in> set cs" using Cons.prems by simp
    then show ?thesis using Cons.IH Cons.prems by simp
  qed
qed

lemma buildLinks_records_key:
  assumes "n \<in> set ns" "c \<in> set (connectedProjects n)" "pm c = Some t" "id' t \<noteq> id' n"
  shows "linkId (id' n) (id' t) \<in> set (fst (buildLinks pm ns))"
proof -
  let ?f = "\<lambda>st n. foldl (addLink pm n) st (connectedProjects n)"
  have grows: "set (fst st) \<subseteq> set (fst (foldl ?f st ms))" for st ms
  proof (induction ms arbitrary: st)
    case Nil
    then show ?case by simp
  next
    case (Cons m ms)
    have "set (fst st) \<subseteq> set (fst (?f st m))" by (rule foldl_addLink_grows)
    also have "\<dots> \<subseteq> set (fst (foldl ?f (?f st m) ms))" by (rule Cons.IH)
    finally show ?case by simp
  qed
  have "linkId (id' n) (id' t) \<in> set (fst (foldl ?f st ms))" if "n \<in> set ms" for st ms
    using that
  proof (induction ms arbitrary: st)
    case Nil
    then show ?case by simp
  next
    case (Cons m ms)
    show ?case
    proof (cases "n = m")
      case True
      have "linkId (id' n) (id' t) \<in> set (fst (?f st m))"
        using assms(2-4) True by (simp add: foldl_addLink_records_key)
      then show ?thesis using grows [of "?f st m" ms] by auto
    next
      case False
      then have "n \<in> set ms" using Cons.prems by simp
      then show ?thesis using Cons.IH by simp
    qed
  qed
  then show ?thesis using assms(1) by (simp add: buildLinks_def)
qed

text \<open>
  Every declared connection that resolves to another node is represented by a link of
  the same key.
\<close>

lemma declared_connection_has_key:
  assumes "n \<in> set (nodes (normalizeWith photo rows))" "c \<in> set (connectedProjects n)"
    "projectMapOf (nodes (normalizeWith photo rows)) c = Some t" "id' t \<noteq> id' n"
  shows "\<exists>l \<in> set (links (normalizeWith photo rows)). linkKey l = linkId (id' n) (id' t)"
proof -
  let ?ns = "map (makeNode photo) rows"
  have ns: "nodes (normalizeWith photo rows) = ?ns" by (simp add: normalizeWith_def Let_def)
  have a: "n \<in> set ?ns" and b: "projectMapOf ?ns c = Some t"
    using assms(1,3) by (simp_all only: ns)
  have "linkId (id' n) (id' t) \<in> set (fst (buildLinks (projectMapOf ?ns) ?ns))"
    using a assms(2) b assms(4)
    by (rule buildLinks_records_key [where pm = "projectMapOf (map (makeNode photo) rows)"])
  moreover have "linksInvariant (buildLinks (projectMapOf ?ns) ?ns)"
    by (rule buildLinks_invariant)
  ultimately have "linkId (id' n) (id' t) \<in> linkKey ` set (snd (buildLinks (projectMapOf ?ns) ?ns))"
    by (simp add: linksInvariant_def)
  then show ?thesis by (auto simp: normalizeWith_def Let_def)
qed

text \<open>
  Claim C1. The edge list has no self-loop and no two edges on the same unordered pair,
  and a connection declared from one end, from the other or from both yields exactly one
  edge. The first two hold for every dataset (\<open>links_no_loops_no_duplicates\<close>). The third
  fails when two different pairs get the same key: \<open>a|b\<close> declares \<open>c\<close> and \<open>a\<close> declares
  \<open>b|c\<close>, both keys are \<open>a|b|c\<close>, and the second connection yields no edge.
\<close>

theorem key_collision_drops_edge:
  "map id' (nodes (normalizeData pipeDataset)) = [''a|b'', ''c'', ''a'', ''b|c'']
   \<and> connectedProjects (nodes (normalizeData pipeDataset) ! 2) = [''b|c'']
   \<and> linkId ''a|b'' ''c'' = linkId ''a'' ''b|c''
   \<and> links (normalizeData pipeDataset) = [\<lparr> source = ''a|b'', target = ''c'' \<rparr>]"
proof -
  have k1: "map id' (nodes (normalizeData pipeDataset)) = [''a|b'', ''c'', ''a'', ''b|c'']"
    by code_simp
  have k2: "connectedProjects (nodes (normalizeData pipeDataset) ! 2) = [''b|c'']"
    by code_simp
  have k3: "linkId ''a|b'' ''c'' = linkId ''a'' ''b|c''"
    by code_simp
  have k4: "links (normalizeData pipeDataset) = [\<lparr> source = ''a|b'', target = ''c'' \<rparr>]"
    by code_simp
  show ?thesis using k1 k2 k3 k4 by simp
qed

end
